theory Spec2Isabelle
  imports Complex_Main "HOL-Library.Product_Lexorder"
begin

section \<open>Text\<close>

text \<open>
  A Python \<open>str\<close> is a sequence of Unicode code points; \<open>len\<close> counts code points.
  Texts that the programs measure, search or split are therefore lists of code points.
  Identifiers and opaque blobs (task ids, worker ids, status names, JSON blobs) are plain
  strings.
\<close>

type_synonym ustr = "nat list"

definition asc :: "string \<Rightarrow> ustr" where
  "asc s = map of_char s"

text \<open>\<open>needle in hay\<close> for Python strings: \<open>needle\<close> occurs as a contiguous slice.\<close>

fun py_in :: "'a list \<Rightarrow> 'a list \<Rightarrow> bool" where
  "py_in needle [] = (needle = [])"
| "py_in needle (h # hs) = (take (length needle) (h # hs) = needle \<or> py_in needle hs)"

section \<open>Deliverable quality score (task\_result\_manager.py, \<open>_assess_quality\<close>)\<close>

text \<open>
  The three Japanese keywords of the data-analysis branch, as code points:
  U+7D50 U+8AD6, U+63A8 U+5968, U+5206 U+6790.
\<close>

definition kw_ketsuron :: ustr where "kw_ketsuron = [32080, 35542]"
definition kw_suishou :: ustr where "kw_suishou = [25512, 22888]"
definition kw_bunseki :: ustr where "kw_bunseki = [20998, 26512]"

definition assess_quality :: "ustr \<Rightarrow> string \<Rightarrow> int" where
  "assess_quality result_text task_type =
     (let score = 70;
          score = (if length result_text > 50 then score + 10 else score);
          score = (if length result_text > 200 then score + 5 else score);
          score =
            (if task_type = ''code_generation'' then
               (let score = (if py_in (asc ''def '') result_text \<or> py_in (asc ''class '') result_text
                             then score + 10 else score);
                    score = (if py_in [34, 34, 34] result_text \<or> py_in [39, 39, 39] result_text
                             then score + 5 else score)
                in score)
             else if task_type = ''data_analysis'' then
               (let score = (if py_in (asc ''##'') result_text then score + 10 else score);
                    score = (if list_ex (\<lambda>word. py_in word result_text)
                                  [kw_ketsuron, kw_suishou, kw_bunseki]
                             then score + 5 else score)
                in score)
             else score)
      in min score 100)"

section \<open>The store (common/database.py)\<close>

text \<open>
  The two tables of \<open>_ensure_database\<close>, one record per row, each table a list of rows in
  insertion order. Timestamps are seconds on the database clock; the clock reading
  (\<open>CURRENT_TIMESTAMP\<close>, \<open>datetime('now')\<close>) is an argument of every operation that
  consults it. Worker rows carry the two columns that the enhanced pool manager adds
  (\<open>location\<close>, \<open>performance_factor\<close>). Each operation is modelled as its transaction
  body run alone on the store: the retry loops around the bodies only re-run them after a
  lock error of the database engine.
\<close>

record task =
  task_id :: string
  content :: string
  status :: string
  priority :: int
  result :: "string option"
  created_by :: string
  assigned_to :: "string option"
  created_at :: int
  updated_at :: int

record worker =
  worker_id :: string
  w_status :: string
  current_task :: "string option"
  tasks_completed :: nat
  tasks_failed :: nat
  last_heartbeat :: int
  w_created_at :: int
  location :: string
  performance_factor :: rat

record notification =
  n_worker_id :: string
  n_type :: string
  n_task_id :: string
  n_message :: string
  n_processed :: bool

record store =
  tasks :: "task list"
  workers :: "worker list"
  notifications :: "notification list"



section \<open>Worker pool scaling (workers/worker\_pool\_manager.py)\<close>








section \<open>Store operations (common/database.py)\<close>




text \<open>
  \<open>complete_task_with_stats\<close>: the UPDATE of the task matches on \<open>task_id\<close> and
  \<open>assigned_to\<close>; a row count of 0 rolls back and returns False; otherwise the worker row
  (if there is one) gets its counter incremented and is reset to idle.
\<close>

definition complete_task_with_stats ::
    "int \<Rightarrow> string \<Rightarrow> string \<Rightarrow> string \<Rightarrow> bool \<Rightarrow> store \<Rightarrow> bool \<times> store" where
  "complete_task_with_stats now tid wid res success s =
     (let new_status = (if success then ''completed'' else ''failed'');
          hit = (\<lambda>t. task_id t = tid \<and> assigned_to t = Some wid);
          rowcount = length (filter hit (tasks s))
      in if rowcount = 0 then (False, s)
         else
           (True,
            s\<lparr>tasks :=
                 map (\<lambda>t. if hit t
                           then t\<lparr>status := new_status, result := Some res, updated_at := now\<rparr>
                           else t) (tasks s),
               workers :=
                 map (\<lambda>w. if worker_id w = wid
                           then (if success
                                 then w\<lparr>tasks_completed := tasks_completed w + 1,
                                        w_status := ''idle'', current_task := None,
                                        last_heartbeat := now\<rparr>
                                 else w\<lparr>tasks_failed := tasks_failed w + 1,
                                        w_status := ''idle'', current_task := None,
                                        last_heartbeat := now\<rparr>)
                           else w) (workers s)\<rparr>))"

text \<open>
  \<open>get_pending_tasks\<close> and the SELECT of \<open>acquire_next_task\<close>:
  \<open>WHERE status = 'pending' ORDER BY priority DESC, created_at ASC\<close>. Rows that agree on
  both keys stay in insertion order.
\<close>

definition pending_queue :: "task list \<Rightarrow> task list" where
  "pending_queue ts =
     sort_key (\<lambda>t. (- priority t, created_at t)) (filter (\<lambda>t. status t = ''pending'') ts)"

definition get_pending_tasks :: "nat \<Rightarrow> store \<Rightarrow> task list" where
  "get_pending_tasks limit s = take limit (pending_queue (tasks s))"

text \<open>The dictionary that \<open>acquire_next_task\<close> returns: four columns of the selected row.\<close>

record task_row =
  r_task_id :: string
  r_content :: string
  r_priority :: int
  r_created_at :: int

text \<open>
  \<open>acquire_next_task\<close>: up to three attempts. An attempt returns None when no row is
  pending, goes on to the next attempt when its UPDATE changes no row, and otherwise
  updates the worker row and returns the selected columns. The first argument is the
  number of attempts left.
\<close>

fun acquire_attempts :: "nat \<Rightarrow> int \<Rightarrow> string \<Rightarrow> store \<Rightarrow> task_row option \<times> store" where
  "acquire_attempts 0 now wid s = (None, s)"
| "acquire_attempts (Suc n) now wid s =
     (case take 1 (pending_queue (tasks s)) of
        [] \<Rightarrow> (None, s)
      | row # _ \<Rightarrow>
          (let tid = task_id row;
               hit = (\<lambda>t. task_id t = tid \<and> status t = ''pending'');
               rowcount = length (filter hit (tasks s))
           in if rowcount = 0 then acquire_attempts n now wid s
              else
                (Some \<lparr>r_task_id = tid, r_content = content row,
                       r_priority = priority row, r_created_at = created_at row\<rparr>,
                 s\<lparr>tasks :=
                      map (\<lambda>t. if hit t
                                then t\<lparr>status := ''in_progress'', assigned_to := Some wid,
                                       updated_at := now\<rparr>
                                else t) (tasks s),
                    workers :=
                      map (\<lambda>w. if worker_id w = wid
                                then w\<lparr>w_status := ''busy'', current_task := Some tid,
                                       last_heartbeat := now\<rparr>
                                else w) (workers s)\<rparr>)))"

definition acquire_next_task :: "int \<Rightarrow> string \<Rightarrow> store \<Rightarrow> task_row option \<times> store" where
  "acquire_next_task now wid s = acquire_attempts 3 now wid s"

text \<open>\<open>DatabaseManager.assign_task_to_worker\<close>: the conditional transition
  pending to in\_progress; True when a row changed.\<close>

definition db_assign_task_to_worker :: "int \<Rightarrow> string \<Rightarrow> string \<Rightarrow> store \<Rightarrow> bool \<times> store" where
  "db_assign_task_to_worker now tid wid s =
     (let hit = (\<lambda>t. task_id t = tid \<and> status t = ''pending'');
          rowcount = length (filter hit (tasks s))
      in (rowcount > 0,
          s\<lparr>tasks :=
               map (\<lambda>t. if hit t
                         then t\<lparr>status := ''in_progress'', assigned_to := Some wid,
                                updated_at := now\<rparr>
                         else t) (tasks s)\<rparr>))"

section \<open>Example rows\<close>

definition mk_task :: "string \<Rightarrow> string \<Rightarrow> int \<Rightarrow> string option \<Rightarrow> int \<Rightarrow> task" where
  "mk_task tid st prio who t0 =
     \<lparr>task_id = tid, content = ''{}'', status = st, priority = prio, result = None,
      created_by = ''system'', assigned_to = who, created_at = t0, updated_at = t0\<rparr>"

definition mk_worker :: "string \<Rightarrow> string \<Rightarrow> string option \<Rightarrow> nat \<Rightarrow> nat \<Rightarrow> int \<Rightarrow> worker" where
  "mk_worker wid st cur done failed hb =
     \<lparr>worker_id = wid, w_status = st, current_task = cur, tasks_completed = done,
      tasks_failed = failed, last_heartbeat = hb, w_created_at = 0,
      location = ''local'', performance_factor = 1\<rparr>"

definition ex_store_orphans :: store where
  "ex_store_orphans =
     \<lparr>tasks = [mk_task ''t1'' ''in_progress'' 5 (Some ''w1'') 1,
               mk_task ''t2'' ''in_progress'' 5 (Some ''w2'') 2],
      workers = [mk_worker ''w1'' ''busy'' (Some ''t1'') 0 0 10,
                 mk_worker ''w2'' ''busy'' (Some ''t2'') 0 0 95],
      notifications = []\<rparr>"

definition ex_store_done :: store where
  "ex_store_done =
     \<lparr>tasks = [mk_task ''t1'' ''completed'' 5 (Some ''w1'') 1],
      workers = [mk_worker ''w1'' ''idle'' None 1 0 10],
      notifications = []\<rparr>"

definition ex_store_queue :: store where
  "ex_store_queue =
     \<lparr>tasks = [mk_task ''T1'' ''pending'' 9 None 1,
               mk_task ''T2'' ''pending'' 5 None 2,
               mk_task ''T3'' ''pending'' 9 None 3],
      workers = [mk_worker ''w1'' ''idle'' None 0 0 4],
      notifications = []\<rparr>"

section \<open>Task routing (workers/enhanced\_pool\_manager.py, \<open>TaskRouter\<close>)\<close>

text \<open>
  The dictionaries the router reads. A field read with \<open>dict.get(key, default)\<close> is an
  option: None stands for an absent key. Scores are exact rationals; the rounding of
  Python floats is not modelled.
\<close>

record worker_info =
  wi_worker_id :: string
  wi_status :: string
  wi_location :: "string option"
  wi_performance_factor :: "rat option"
  wi_tasks_completed :: nat
  wi_tasks_failed :: nat

record task_info =
  ti_task_id :: string
  ti_priority :: "int option"
  preferred_worker :: "string option"

record routing_rule =
  priority_range :: "(int \<times> int) option"
  preferred_workers :: "string list option"
  fallback_to_local :: "bool option"

datatype py_error = UnboundLocalError

definition get_location :: "worker_info \<Rightarrow> string" where
  "get_location w = (case wi_location w of None \<Rightarrow> ''local'' | Some l \<Rightarrow> l)"

definition match_worker_type :: "string \<Rightarrow> worker_info \<Rightarrow> bool" where
  "match_worker_type worker_type w =
     (if worker_type = ''local'' then get_location w = ''local''
      else if worker_type = ''remote'' then get_location w \<noteq> ''local''
      else True)"

definition calculate_worker_score :: "worker_info \<Rightarrow> rat" where
  "calculate_worker_score w =
     (let score = 0;
          score = score + (case wi_performance_factor w of None \<Rightarrow> 1 | Some p \<Rightarrow> p) * 100;
          score = (if wi_status w = ''idle'' then score + 50
                   else if wi_status w = ''busy'' then score - 30
                   else score);
          total_tasks = wi_tasks_completed w + wi_tasks_failed w;
          score = (if total_tasks > 0
                   then score + (of_nat (wi_tasks_completed w) / of_nat total_tasks) * 30
                   else score)
      in score)"

text \<open>\<open>scores.sort(key=..., reverse=True)\<close> is a stable sort by descending score.\<close>

definition select_best_worker :: "worker_info list \<Rightarrow> string option" where
  "select_best_worker candidates =
     (if candidates = [] then None
      else
        (let scores = map (\<lambda>w. (wi_worker_id w, calculate_worker_score w)) candidates;
             scores = sort_key (\<lambda>x. - snd x) scores
         in case scores of [] \<Rightarrow> None | x # _ \<Rightarrow> Some (fst x)))"

text \<open>
  The loop over the worker types of one rule. The local variable \<open>candidates\<close> is bound
  only by this loop's body, and keeps its last value afterwards: None is the unbound
  variable. The result is either the worker returned from inside the loop (Inl) or the
  value of \<open>candidates\<close> when the loop ends (Inr). A result of the selection is returned
  only when it is a non-empty string (\<open>if selected:\<close>).
\<close>

fun try_worker_types ::
    "worker_info list \<Rightarrow> string list \<Rightarrow> worker_info list option
       \<Rightarrow> string + worker_info list option" where
  "try_worker_types available_workers [] candidates = Inr candidates"
| "try_worker_types available_workers (worker_type # rest) candidates =
     (let cs = filter (match_worker_type worker_type) available_workers
      in if cs \<noteq> [] then
           (case select_best_worker cs of
              Some selected \<Rightarrow>
                (if selected \<noteq> [] then Inl selected
                 else try_worker_types available_workers rest (Some cs))
            | None \<Rightarrow> try_worker_types available_workers rest (Some cs))
         else try_worker_types available_workers rest (Some cs))"

text \<open>
  The loop over the rules, followed by the default (the first available worker).
  Reading \<open>candidates\<close> while it is unbound raises UnboundLocalError.
\<close>

fun apply_rules ::
    "worker_info list \<Rightarrow> int \<Rightarrow> routing_rule list \<Rightarrow> worker_info list option
       \<Rightarrow> py_error + string option" where
  "apply_rules available_workers prio [] candidates =
     Inr (case available_workers of [] \<Rightarrow> None | w # _ \<Rightarrow> Some (wi_worker_id w))"
| "apply_rules available_workers prio (rule # rules) candidates =
     (let range = (case priority_range rule of None \<Rightarrow> (1, 10) | Some r \<Rightarrow> r)
      in if fst range \<le> prio \<and> prio \<le> snd range then
           (let preferred_types = (case preferred_workers rule of None \<Rightarrow> [] | Some ts \<Rightarrow> ts)
            in case try_worker_types available_workers preferred_types candidates of
                 Inl selected \<Rightarrow> Inr (Some selected)
               | Inr candidates1 \<Rightarrow>
                   (if (case fallback_to_local rule of None \<Rightarrow> False | Some b \<Rightarrow> b) then
                      (case candidates1 of
                         None \<Rightarrow> Inl UnboundLocalError
                       | Some cs \<Rightarrow>
                           (if cs = [] then
                              (let local_workers =
                                     filter (\<lambda>w. get_location w = ''local'') available_workers
                               in if local_workers \<noteq> []
                                  then Inr (select_best_worker local_workers)
                                  else apply_rules available_workers prio rules candidates1)
                            else apply_rules available_workers prio rules candidates1))
                    else apply_rules available_workers prio rules candidates1))
         else apply_rules available_workers prio rules candidates)"

definition route_task ::
    "routing_rule list \<Rightarrow> task_info \<Rightarrow> worker_info list \<Rightarrow> py_error + string option" where
  "route_task rules task available_workers =
     (if available_workers = [] then Inr None
      else
        (let pref = (case preferred_worker task of
                       None \<Rightarrow> None
                     | Some p \<Rightarrow>
                         if p \<noteq> [] \<and> filter (\<lambda>w. wi_worker_id w = p) available_workers \<noteq> []
                         then Some p else None)
         in case pref of
              Some p \<Rightarrow> Inr (Some p)
            | None \<Rightarrow>
                (let prio = (case ti_priority task of None \<Rightarrow> 5 | Some p \<Rightarrow> p);
                     local_workers =
                       filter (\<lambda>w. get_location w = ''local'') available_workers;
                     remote_workers =
                       filter (\<lambda>w. get_location w \<noteq> ''local'') available_workers;
                     local_idle = filter (\<lambda>w. wi_status w = ''idle'') local_workers;
                     best_remote =
                       (if local_idle = [] \<and> remote_workers \<noteq> []
                        then select_best_worker remote_workers else None)
                 in case best_remote of
                      Some b \<Rightarrow>
                        (if b \<noteq> [] then Inr (Some b)
                         else apply_rules available_workers prio rules None)
                    | None \<Rightarrow> apply_rules available_workers prio rules None)))"

definition mk_info :: "string \<Rightarrow> string \<Rightarrow> string \<Rightarrow> rat \<Rightarrow> nat \<Rightarrow> nat \<Rightarrow> worker_info" where
  "mk_info wid st loc pf done failed =
     \<lparr>wi_worker_id = wid, wi_status = st, wi_location = Some loc,
      wi_performance_factor = Some pf, wi_tasks_completed = done, wi_tasks_failed = failed\<rparr>"

section \<open>Dispatch by the enhanced pool manager (workers/enhanced\_pool\_manager.py)\<close>

text \<open>\<open>get_available_workers\<close>: the idle worker rows with a heartbeat within the last
  60 seconds, as the dictionaries handed to the router.\<close>

definition worker_to_info :: "worker \<Rightarrow> worker_info" where
  "worker_to_info w =
     \<lparr>wi_worker_id = worker_id w, wi_status = w_status w, wi_location = Some (location w),
      wi_performance_factor = Some (performance_factor w),
      wi_tasks_completed = tasks_completed w, wi_tasks_failed = tasks_failed w\<rparr>"

definition get_available_workers :: "int \<Rightarrow> store \<Rightarrow> worker_info list" where
  "get_available_workers now s =
     map worker_to_info
       (filter (\<lambda>w. w_status w = ''idle'' \<and> now - 60 \<le> last_heartbeat w) (workers s))"

text \<open>\<open>notify_worker_task_assignment\<close>: one more row in \<open>worker_notifications\<close>.\<close>

definition notify_worker_task_assignment :: "string \<Rightarrow> task_info \<Rightarrow> store \<Rightarrow> store" where
  "notify_worker_task_assignment wid task s =
     s\<lparr>notifications := notifications s @
          [\<lparr>n_worker_id = wid, n_type = ''task_assigned'', n_task_id = ti_task_id task,
            n_message = ''Task '' @ ti_task_id task @ '' assigned - process immediately'',
            n_processed = False\<rparr>]\<rparr>"

text \<open>
  \<open>EnhancedWorkerPoolManager.assign_task_to_worker\<close>: route the task, then two UPDATEs,
  the worker row first, then the task row matched on \<open>task_id\<close> alone, then the
  notification. An exception of the router leaves the method before any update.
\<close>

definition assign_task_to_worker ::
    "routing_rule list \<Rightarrow> int \<Rightarrow> task_info \<Rightarrow> store \<Rightarrow> py_error + string option \<times> store" where
  "assign_task_to_worker rules now task s =
     (let available_workers = get_available_workers now s
      in if available_workers = [] then Inr (None, s)
         else
           (case route_task rules task available_workers of
              Inl e \<Rightarrow> Inl e
            | Inr None \<Rightarrow> Inr (None, s)
            | Inr (Some selected_worker_id) \<Rightarrow>
                (if selected_worker_id \<noteq> [] then
                   (let s1 = s\<lparr>workers :=
                                 map (\<lambda>w. if worker_id w = selected_worker_id
                                           then w\<lparr>w_status := ''busy'',
                                                  current_task := Some (ti_task_id task)\<rparr>
                                           else w) (workers s)\<rparr>;
                        s2 = s1\<lparr>tasks :=
                                  map (\<lambda>t. if task_id t = ti_task_id task
                                            then t\<lparr>status := ''in_progress'',
                                                   assigned_to := Some selected_worker_id\<rparr>
                                            else t) (tasks s1)\<rparr>;
                        s3 = notify_worker_task_assignment selected_worker_id task s2
                    in Inr (Some selected_worker_id, s3))
                 else Inr (None, s))))"

definition ex_store_race :: store where
  "ex_store_race =
     \<lparr>tasks = [mk_task ''T1'' ''in_progress'' 5 (Some ''w1'') 1],
      workers = [mk_worker ''w1'' ''busy'' (Some ''T1'') 0 0 99,
                 mk_worker ''w2'' ''idle'' None 0 0 99],
      notifications = []\<rparr>"

section \<open>More store operations (common/database.py)\<close>

text \<open>\<open>create_task\<close>: an INSERT; the primary key rejects an id that is already there.\<close>

definition create_task :: "int \<Rightarrow> string \<Rightarrow> string \<Rightarrow> int \<Rightarrow> string \<Rightarrow> store \<Rightarrow> bool \<times> store" where
  "create_task now tid cont prio creator s =
     (if tid \<in> set (map task_id (tasks s)) then (False, s)
      else (True,
            s\<lparr>tasks := tasks s @
                 [\<lparr>task_id = tid, content = cont, status = ''pending'', priority = prio,
                   result = None, created_by = creator, assigned_to = None,
                   created_at = now, updated_at = now\<rparr>]\<rparr>))"

text \<open>\<open>update_task_status\<close>: the unconditional UPDATE, with or without a result.\<close>

definition update_task_status ::
    "int \<Rightarrow> string \<Rightarrow> string \<Rightarrow> string option \<Rightarrow> store \<Rightarrow> bool \<times> store" where
  "update_task_status now tid st res s =
     (length (filter (\<lambda>t. task_id t = tid) (tasks s)) > 0,
      s\<lparr>tasks :=
           map (\<lambda>t. if task_id t = tid
                     then (case res of
                             Some r \<Rightarrow> t\<lparr>status := st, result := Some r, updated_at := now\<rparr>
                           | None \<Rightarrow> t\<lparr>status := st, updated_at := now\<rparr>)
                     else t) (tasks s)\<rparr>)"

definition update_worker_status ::
    "int \<Rightarrow> string \<Rightarrow> string \<Rightarrow> string option \<Rightarrow> store \<Rightarrow> bool \<times> store" where
  "update_worker_status now wid st cur s =
     (length (filter (\<lambda>w. worker_id w = wid) (workers s)) > 0,
      s\<lparr>workers :=
           map (\<lambda>w. if worker_id w = wid
                     then w\<lparr>w_status := st, current_task := cur, last_heartbeat := now\<rparr>
                     else w) (workers s)\<rparr>)"

section \<open>Task submission (mcp\_server.py)\<close>

text \<open>
  The JSON object of a delegate request, by the keys the handler reads, each with the type
  the interface gives it; None is an absent key, and \<open>rq_extra\<close> says whether the object
  has any other key. The result dictionary of an execution has the keys \<open>success\<close>,
  \<open>output\<close> and \<open>error\<close>.
\<close>

record delegate_request =
  rq_type :: "string option"
  rq_priority :: "int option"
  rq_content :: "string option"
  rq_prompt :: "string option"
  rq_files :: "string list option"
  rq_output_file :: "string option"
  rq_options :: "(string \<times> string) list option"
  rq_sync :: "bool option"
  rq_extra :: bool

record task_content =
  tc_type :: string
  tc_prompt :: string
  tc_files :: "string list"
  tc_output_file :: "string option"
  tc_options :: "(string \<times> string) list"

record exec_result =
  er_success :: bool
  er_output :: string
  er_error :: "string option"

datatype delegate_body =
    ErrorBody string
  | Delegated string
  | Completed string exec_result

text \<open>
  What is outside the program: the run of the Gemini CLI script (exit code, standard
  output and standard error, or the exception of \<open>subprocess.run\<close>), the serialisation
  \<open>json.dumps\<close>, the generated task id and the clock. The state is the store together
  with the prompts handed to the script so far. The git commit that \<open>auto_git_save\<close>
  makes before the request is read touches neither and is left out.
\<close>

datatype exec_outcome =
    Exited int string string
  | TimeoutExpired
  | FileNotFound
  | OtherException string

record api_env =
  gemini_exec :: string
  run_gemini_cli :: "string \<Rightarrow> exec_outcome"
  dumps_content :: "task_content \<Rightarrow> string"
  dumps_result :: "exec_result \<Rightarrow> string"
  new_task_id :: string
  clock :: int

record api_state =
  db :: store
  invocations :: "string list"

definition is_space_char :: "char \<Rightarrow> bool" where
  "is_space_char c = (c \<in> set [CHR '' '', CHR 0x09, CHR 0x0A, CHR 0x0B, CHR 0x0C, CHR 0x0D,
                                 CHR 0x1C, CHR 0x1D, CHR 0x1E, CHR 0x1F])"

definition strip_string :: "string \<Rightarrow> string" where
  "strip_string s = rev (dropWhile is_space_char (rev (dropWhile is_space_char s)))"

definition execute_task_sync :: "api_env \<Rightarrow> task_content \<Rightarrow> api_state \<Rightarrow> exec_result \<times> api_state" where
  "execute_task_sync env tc st =
     (let prompt = tc_prompt tc
      in if prompt = [] then
           (\<lparr>er_success = False, er_output = [], er_error = Some ''No prompt provided''\<rparr>, st)
         else
           (let st1 = st\<lparr>invocations := invocations st @ [prompt]\<rparr>
            in case run_gemini_cli env prompt of
                 Exited returncode out err \<Rightarrow>
                   (\<lparr>er_success = (returncode = 0), er_output = strip_string out,
                     er_error = (if returncode \<noteq> 0 then Some (strip_string err) else None)\<rparr>, st1)
               | TimeoutExpired \<Rightarrow>
                   (\<lparr>er_success = False, er_output = [],
                     er_error = Some ''Gemini CLI task execution timed out''\<rparr>, st1)
               | FileNotFound \<Rightarrow>
                   (\<lparr>er_success = False, er_output = [],
                     er_error = Some (''Gemini CLI script not found: '' @ gemini_exec env)\<rparr>, st1)
               | OtherException msg \<Rightarrow>
                   (\<lparr>er_success = False, er_output = [],
                     er_error = Some (''Unexpected error: '' @ msg)\<rparr>, st1)))"

text \<open>
  \<open>delegate_task\<close>: the argument is the parsed body, or the message of the parser when
  the body is not JSON; the result is the HTTP status code, the body of the response and
  the new state.
\<close>

definition request_is_empty :: "delegate_request \<Rightarrow> bool" where
  "request_is_empty data =
     (rq_type data = None \<and> rq_priority data = None \<and> rq_content data = None
      \<and> rq_prompt data = None \<and> rq_files data = None \<and> rq_output_file data = None
      \<and> rq_options data = None \<and> rq_sync data = None \<and> \<not> rq_extra data)"

definition request_prompt :: "delegate_request \<Rightarrow> string" where
  "request_prompt data =
     (case rq_content data of
        Some c \<Rightarrow> c
      | None \<Rightarrow> (case rq_prompt data of Some p \<Rightarrow> p | None \<Rightarrow> []))"

definition delegate_task ::
    "api_env \<Rightarrow> string + delegate_request \<Rightarrow> api_state
       \<Rightarrow> (nat \<times> delegate_body) \<times> api_state" where
  "delegate_task env body st =
     (case body of
        Inl msg \<Rightarrow> ((400, ErrorBody (''Invalid JSON: '' @ msg)), st)
      | Inr data \<Rightarrow>
          if request_is_empty data then ((400, ErrorBody ''No JSON data provided''), st)
          else
            (let tid = new_task_id env;
                 task_type = (case rq_type data of None \<Rightarrow> ''general'' | Some t \<Rightarrow> t);
                 prio = (case rq_priority data of None \<Rightarrow> 5 | Some p \<Rightarrow> p);
                 tc = \<lparr>tc_type = task_type,
                       tc_prompt = request_prompt data,
                       tc_files = (case rq_files data of None \<Rightarrow> [] | Some fs \<Rightarrow> fs),
                       tc_output_file = rq_output_file data,
                       tc_options = (case rq_options data of None \<Rightarrow> [] | Some os \<Rightarrow> os)\<rparr>
             in if tc_prompt tc = [] then ((400, ErrorBody ''No prompt provided''), st)
                else
                  (case create_task (clock env) tid (dumps_content env tc) prio ''claude_code''
                          (db st) of
                     (False, _) \<Rightarrow> ((500, ErrorBody ''Failed to create task''), st)
                   | (True, db1) \<Rightarrow>
                       (let st1 = st\<lparr>db := db1\<rparr>
                        in if (case rq_sync data of None \<Rightarrow> False | Some b \<Rightarrow> b) then
                             (case execute_task_sync env tc st1 of
                                (res, st2) \<Rightarrow>
                                  ((200, Completed tid res),
                                   st2\<lparr>db := snd (update_task_status (clock env) tid
                                                      ''completed''
                                                      (Some (dumps_result env res)) (db st2))\<rparr>))
                           else ((200, Delegated tid), st1)))))"

section \<open>Task execution by a worker (workers/local\_worker.py, \<open>process_task\<close>)\<close>

text \<open>
  The task dictionary as \<open>get_assigned_task\<close> builds it; \<open>wt_prompt\<close> is
  \<open>content.get('prompt', '')\<close>. Outside the program: \<open>validate_file_operation\<close>, which
  consults the configuration and the file system, and the Executor
  (\<open>run_gemini_task_with_files\<close>). The files that \<open>save_deliverable_files\<close> writes after
  an execution are not part of the state; they do not enter the result.
\<close>

record worker_task =
  wt_task_id :: string
  wt_type :: string
  wt_prompt :: string
  wt_files :: "string list"
  wt_output_file :: "string option"

record worker_env =
  we_worker_id :: string
  validate_file_operation :: "string \<Rightarrow> bool \<times> string"
  run_gemini_task_with_files :: "string \<Rightarrow> string list \<Rightarrow> string option \<Rightarrow> exec_result"
  we_clock :: int

record task_result =
  tr_success :: bool
  tr_output :: string
  tr_error :: "string option"
  tr_files_processed :: "nat option"
  tr_output_file :: "string option"
  tr_prompt :: "string option"

definition rejected :: "string \<Rightarrow> task_result" where
  "rejected msg =
     \<lparr>tr_success = False, tr_output = [], tr_error = Some msg,
      tr_files_processed = None, tr_output_file = None, tr_prompt = None\<rparr>"

text \<open>The loop over the input files stops at the first path that fails validation.\<close>

fun first_invalid :: "(string \<Rightarrow> bool \<times> string) \<Rightarrow> string list \<Rightarrow> string option" where
  "first_invalid validate [] = None"
| "first_invalid validate (file_path # rest) =
     (case validate file_path of
        (False, error_msg) \<Rightarrow> Some error_msg
      | (True, _) \<Rightarrow> first_invalid validate rest)"

definition process_task :: "worker_env \<Rightarrow> worker_task \<Rightarrow> api_state \<Rightarrow> task_result \<times> api_state" where
  "process_task env task st =
     (case first_invalid (validate_file_operation env) (wt_files task) of
        Some error_msg \<Rightarrow> (rejected (''Security validation failed: '' @ error_msg), st)
      | None \<Rightarrow>
          (case (case wt_output_file task of
                   None \<Rightarrow> None
                 | Some output_file \<Rightarrow>
                     if output_file \<noteq> []
                     then first_invalid (validate_file_operation env) [output_file]
                     else None) of
             Some error_msg \<Rightarrow> (rejected (''Security validation failed: '' @ error_msg), st)
           | None \<Rightarrow>
               if wt_prompt task = [] then (rejected ''Prompt is empty'', st)
               else
                 (let db1 = snd (update_worker_status (we_clock env) (we_worker_id env)
                                   ''processing'' (Some (wt_task_id task)) (db st));
                      res = run_gemini_task_with_files env (wt_prompt task) (wt_files task)
                              (wt_output_file task)
                  in (\<lparr>tr_success = er_success res, tr_output = er_output res,
                        tr_error = er_error res,
                        tr_files_processed = Some (length (wt_files task)),
                        tr_output_file = wt_output_file task,
                        tr_prompt = Some (wt_prompt task)\<rparr>,
                      st\<lparr>db := db1,
                         invocations := invocations st @ [wt_prompt task]\<rparr>))))"

text \<open>For the examples: an environment whose script always succeeds, the empty state, a
  synchronous request with a given prompt, and a worker whose validation accepts every
  path.\<close>

definition ex_env :: api_env where
  "ex_env =
     \<lparr>gemini_exec = ''.koubou/scripts/gemini-exec.sh'',
      run_gemini_cli = (\<lambda>prompt. Exited 0 ''ok'' []),
      dumps_content = tc_prompt,
      dumps_result = er_output,
      new_task_id = ''task_1'',
      clock = 100\<rparr>"

definition ex_state :: api_state where
  "ex_state = \<lparr>db = \<lparr>tasks = [], workers = [], notifications = []\<rparr>, invocations = []\<rparr>"

definition ex_request :: "string \<Rightarrow> delegate_request" where
  "ex_request p =
     \<lparr>rq_type = Some ''general'', rq_priority = Some 5, rq_content = None,
      rq_prompt = Some p, rq_files = None, rq_output_file = None, rq_options = None,
      rq_sync = Some True, rq_extra = False\<rparr>"

definition ex_worker_env :: worker_env where
  "ex_worker_env =
     \<lparr>we_worker_id = ''w1'',
      validate_file_operation = (\<lambda>path. (True, [])),
      run_gemini_task_with_files =
        (\<lambda>prompt files out. \<lparr>er_success = True, er_output = ''ok'', er_error = None\<rparr>),
      we_clock = 100\<rparr>"

section \<open>Deliverable extraction (common/task\_result\_manager.py)\<close>

subsection \<open>Character classes and string helpers\<close>







subsection \<open>String literals of the source, as code points\<close>











































subsection \<open>Type inference (\<open>_infer_task_type\<close>)\<close>



subsection \<open>The three file-header patterns\<close>











subsection \<open>Writing the detected files (\<open>_save_formatted_result\<close>)\<close>













section \<open>Theorems\<close>

subsection \<open>Quality score\<close>

lemma let_lower:
  fixes lo :: int
  assumes "lo \<le> x" and "\<And>y. lo \<le> y \<Longrightarrow> lo \<le> f y"
  shows "lo \<le> (let s = x in f s)"
  using assms by simp

lemma if_lower:
  fixes lo :: int
  assumes "c \<Longrightarrow> lo \<le> a" and "\<not> c \<Longrightarrow> lo \<le> b"
  shows "lo \<le> (if c then a else b)"
  using assms by simp

text \<open>
  C10. For every result text and every task type the quality score is an integer between
  70 and 100: the base is 70, every bonus is non-negative, and the sum is capped at 100.
\<close>

theorem assess_quality_bounds:
  "70 \<le> assess_quality result_text task_type \<and> assess_quality result_text task_type \<le> 100"
proof
  show "assess_quality result_text task_type \<le> 100"
    unfolding assess_quality_def Let_def by (rule min.cobounded2)
  show "70 \<le> assess_quality result_text task_type"
    unfolding assess_quality_def
    by (intro let_lower if_lower) simp_all
qed

subsection \<open>Back-pressure\<close>




subsection \<open>Orphan recovery\<close>








subsection \<open>Conditional completion\<close>

text \<open>
  C1, as stated, fails: a task that worker \<open>w1\<close> has already completed is still assigned
  to \<open>w1\<close>, so a second \<open>complete_task_with_stats\<close> by \<open>w1\<close> succeeds although the status
  is not \<open>in_progress\<close>, and \<open>tasks_completed\<close> goes from 1 to 2.
\<close>

theorem complete_task_with_stats_counterexample:
  "status (hd (tasks ex_store_done)) \<noteq> ''in_progress''
   \<and> fst (complete_task_with_stats 20 ''t1'' ''w1'' ''r'' True ex_store_done)
   \<and> map tasks_completed (workers ex_store_done) = [1]
   \<and> map tasks_completed
        (workers (snd (complete_task_with_stats 20 ''t1'' ''w1'' ''r'' True ex_store_done))) = [2]"
  by (simp add: complete_task_with_stats_def ex_store_done_def mk_task_def mk_worker_def Let_def)

text \<open>
  C1, amended. \<open>complete_task_with_stats\<close> succeeds if and only if the store holds a task
  row with the given id whose \<open>assigned_to\<close> is the calling worker, whatever its status;
  in every other case it returns False and leaves the whole store as it was, so no task
  row changes and no counter of any worker is incremented.
\<close>

theorem complete_task_with_stats_conditional:
  "(fst (complete_task_with_stats now tid wid res success s)
      \<longleftrightarrow> (\<exists>t \<in> set (tasks s). task_id t = tid \<and> assigned_to t = Some wid))
   \<and> (\<not> fst (complete_task_with_stats now tid wid res success s)
      \<longrightarrow> snd (complete_task_with_stats now tid wid res success s) = s)"
proof -
  have "filter (\<lambda>t. task_id t = tid \<and> assigned_to t = Some wid) (tasks s) = []
        \<longleftrightarrow> \<not> (\<exists>t \<in> set (tasks s). task_id t = tid \<and> assigned_to t = Some wid)"
    by (simp add: filter_empty_conv)
  then show ?thesis
    by (simp add: complete_task_with_stats_def Let_def)
qed

theorem complete_task_with_stats_conditional_witness:
  "fst (complete_task_with_stats 20 ''t1'' ''w1'' ''r'' True ex_store_orphans)
   \<and> \<not> fst (complete_task_with_stats 20 ''t1'' ''w2'' ''r'' True ex_store_orphans)
   \<and> snd (complete_task_with_stats 20 ''t1'' ''w2'' ''r'' True ex_store_orphans) = ex_store_orphans"
proof -
  have a: "\<exists>t \<in> set (tasks ex_store_orphans). task_id t = ''t1'' \<and> assigned_to t = Some ''w1''"
    by (simp add: ex_store_orphans_def mk_task_def)
  have b: "\<not> (\<exists>t \<in> set (tasks ex_store_orphans). task_id t = ''t1'' \<and> assigned_to t = Some ''w2'')"
    by (simp add: ex_store_orphans_def mk_task_def)
  from complete_task_with_stats_conditional [of 20 "''t1''" "''w1''" "''r''" True ex_store_orphans]
       complete_task_with_stats_conditional [of 20 "''t1''" "''w2''" "''r''" True ex_store_orphans]
       a b
  show ?thesis by blast
qed

subsection \<open>Atomic claim of the next task\<close>

lemma pending_queue_set:
  "set (pending_queue ts) = {t \<in> set ts. status t = ''pending''}"
  by (auto simp: pending_queue_def)

lemma pending_queue_Nil:
  "pending_queue ts = [] \<longleftrightarrow> filter (\<lambda>t. status t = ''pending'') ts = []"
  by (metis (no_types, lifting) pending_queue_def length_0_conv length_sort)

lemma pending_queue_head_first:
  assumes "pending_queue ts = t # q" and "u \<in> set ts" and "status u = ''pending''"
  shows "priority u < priority t \<or> (priority u = priority t \<and> created_at t \<le> created_at u)"
proof -
  have srt: "sorted (map (\<lambda>t. (- priority t, created_at t)) (pending_queue ts))"
    by (simp add: pending_queue_def)
  have "u \<in> set (pending_queue ts)"
    using assms(2,3) by (simp add: pending_queue_set)
  then have "u = t \<or> u \<in> set q"
    using assms(1) by simp
  then have "(- priority t, created_at t) \<le> (- priority u, created_at u)"
    using srt assms(1) by auto
  then show ?thesis
    by auto
qed

lemma acquire_attempts_Suc_Cons:
  assumes "pending_queue (tasks s) = t # q"
  shows "acquire_attempts (Suc n) now wid s =
     (Some \<lparr>r_task_id = task_id t, r_content = content t,
            r_priority = priority t, r_created_at = created_at t\<rparr>,
      s\<lparr>tasks :=
           map (\<lambda>x. if task_id x = task_id t \<and> status x = ''pending''
                     then x\<lparr>status := ''in_progress'', assigned_to := Some wid,
                            updated_at := now\<rparr>
                     else x) (tasks s),
         workers :=
           map (\<lambda>w. if worker_id w = wid
                     then w\<lparr>w_status := ''busy'', current_task := Some (task_id t),
                            last_heartbeat := now\<rparr>
                     else w) (workers s)\<rparr>)"
proof -
  have "t \<in> set (pending_queue (tasks s))"
    using assms by simp
  then have "t \<in> set (tasks s)" "status t = ''pending''"
    by (simp_all add: pending_queue_set)
  then have "filter (\<lambda>x. task_id x = task_id t \<and> status x = ''pending'') (tasks s) \<noteq> []"
    by (auto simp: filter_empty_conv)
  then show ?thesis
    using assms by (simp add: Let_def)
qed

text \<open>
  C2. If no task is pending, \<open>acquire_next_task\<close> returns None and the store is unchanged.
  Otherwise it selects a pending task \<open>t\<close> that no other pending task precedes in the
  order (priority descending, created\_at ascending), returns its columns, sets the row
  of that id from \<open>pending\<close> to \<open>in_progress\<close> with \<open>assigned_to\<close> the caller, and sets the
  caller's worker row to \<open>busy\<close> with \<open>current_task\<close> that id and the heartbeat refreshed;
  all other rows stay as they were.
\<close>

theorem acquire_next_task_correct:
  "(filter (\<lambda>t. status t = ''pending'') (tasks s) = []
      \<longrightarrow> acquire_next_task now wid s = (None, s))
   \<and> (filter (\<lambda>t. status t = ''pending'') (tasks s) \<noteq> []
      \<longrightarrow> (\<exists>t \<in> set (tasks s).
            status t = ''pending''
          \<and> (\<forall>u \<in> set (tasks s). status u = ''pending''
                \<longrightarrow> priority u < priority t
                  \<or> (priority u = priority t \<and> created_at t \<le> created_at u))
          \<and> fst (acquire_next_task now wid s)
              = Some \<lparr>r_task_id = task_id t, r_content = content t,
                      r_priority = priority t, r_created_at = created_at t\<rparr>
          \<and> tasks (snd (acquire_next_task now wid s))
              = map (\<lambda>x. if task_id x = task_id t \<and> status x = ''pending''
                          then x\<lparr>status := ''in_progress'', assigned_to := Some wid,
                                 updated_at := now\<rparr>
                          else x) (tasks s)
          \<and> workers (snd (acquire_next_task now wid s))
              = map (\<lambda>w. if worker_id w = wid
                          then w\<lparr>w_status := ''busy'', current_task := Some (task_id t),
                                 last_heartbeat := now\<rparr>
                          else w) (workers s)
          \<and> notifications (snd (acquire_next_task now wid s)) = notifications s))"
proof (intro conjI impI)
  assume "filter (\<lambda>t. status t = ''pending'') (tasks s) = []"
  then have "pending_queue (tasks s) = []"
    by (simp add: pending_queue_Nil)
  then show "acquire_next_task now wid s = (None, s)"
    by (simp add: acquire_next_task_def numeral_3_eq_3)
next
  assume "filter (\<lambda>t. status t = ''pending'') (tasks s) \<noteq> []"
  then have "pending_queue (tasks s) \<noteq> []"
    by (simp add: pending_queue_Nil)
  then obtain t q where tq: "pending_queue (tasks s) = t # q"
    by (cases "pending_queue (tasks s)") auto
  then have "t \<in> set (pending_queue (tasks s))"
    by simp
  then have mem: "t \<in> set (tasks s)" and pend: "status t = ''pending''"
    by (simp_all add: pending_queue_set)
  have first: "\<forall>u \<in> set (tasks s). status u = ''pending''
                \<longrightarrow> priority u < priority t
                  \<or> (priority u = priority t \<and> created_at t \<le> created_at u)"
    using pending_queue_head_first [OF tq] by blast
  have run: "acquire_next_task now wid s =
     (Some \<lparr>r_task_id = task_id t, r_content = content t,
            r_priority = priority t, r_created_at = created_at t\<rparr>,
      s\<lparr>tasks :=
           map (\<lambda>x. if task_id x = task_id t \<and> status x = ''pending''
                     then x\<lparr>status := ''in_progress'', assigned_to := Some wid,
                            updated_at := now\<rparr>
                     else x) (tasks s),
         workers :=
           map (\<lambda>w. if worker_id w = wid
                     then w\<lparr>w_status := ''busy'', current_task := Some (task_id t),
                            last_heartbeat := now\<rparr>
                     else w) (workers s)\<rparr>)"
    unfolding acquire_next_task_def numeral_3_eq_3 by (rule acquire_attempts_Suc_Cons [OF tq])
  show "\<exists>t \<in> set (tasks s).
            status t = ''pending''
          \<and> (\<forall>u \<in> set (tasks s). status u = ''pending''
                \<longrightarrow> priority u < priority t
                  \<or> (priority u = priority t \<and> created_at t \<le> created_at u))
          \<and> fst (acquire_next_task now wid s)
              = Some \<lparr>r_task_id = task_id t, r_content = content t,
                      r_priority = priority t, r_created_at = created_at t\<rparr>
          \<and> tasks (snd (acquire_next_task now wid s))
              = map (\<lambda>x. if task_id x = task_id t \<and> status x = ''pending''
                          then x\<lparr>status := ''in_progress'', assigned_to := Some wid,
                                 updated_at := now\<rparr>
                          else x) (tasks s)
          \<and> workers (snd (acquire_next_task now wid s))
              = map (\<lambda>w. if worker_id w = wid
                          then w\<lparr>w_status := ''busy'', current_task := Some (task_id t),
                                 last_heartbeat := now\<rparr>
                          else w) (workers s)
          \<and> notifications (snd (acquire_next_task now wid s)) = notifications s"
    using mem pend first by (intro bexI [of _ t]) (simp_all add: run)
qed
theorem acquire_next_task_correct_witness:
  "filter (\<lambda>t. status t = ''pending'') (tasks ex_store_queue) \<noteq> []
   \<and> (\<exists>t \<in> set (tasks ex_store_queue).
         status t = ''pending''
       \<and> fst (acquire_next_task 10 ''w1'' ex_store_queue)
           = Some \<lparr>r_task_id = task_id t, r_content = content t,
                   r_priority = priority t, r_created_at = created_at t\<rparr>)
   \<and> acquire_next_task 10 ''w1'' ex_store_queue
       = (Some \<lparr>r_task_id = ''T1'', r_content = ''{}'', r_priority = 9, r_created_at = 1\<rparr>,
          \<lparr>tasks = [(mk_task ''T1'' ''in_progress'' 9 (Some ''w1'') 1)\<lparr>updated_at := 10\<rparr>,
                    mk_task ''T2'' ''pending'' 5 None 2,
                    mk_task ''T3'' ''pending'' 9 None 3],
           workers = [mk_worker ''w1'' ''busy'' (Some ''T1'') 0 0 10],
           notifications = []\<rparr>)
   \<and> filter (\<lambda>t. status t = ''pending'') (tasks ex_store_done) = []
   \<and> acquire_next_task 10 ''w1'' ex_store_done = (None, ex_store_done)"
proof -
  have h: "filter (\<lambda>t. status t = ''pending'') (tasks ex_store_queue) \<noteq> []"
    by (simp add: ex_store_queue_def mk_task_def)
  have k: "filter (\<lambda>t. status t = ''pending'') (tasks ex_store_done) = []"
    by (simp add: ex_store_done_def mk_task_def)
  have e: "acquire_next_task 10 ''w1'' ex_store_queue
       = (Some \<lparr>r_task_id = ''T1'', r_content = ''{}'', r_priority = 9, r_created_at = 1\<rparr>,
          \<lparr>tasks = [(mk_task ''T1'' ''in_progress'' 9 (Some ''w1'') 1)\<lparr>updated_at := 10\<rparr>,
                    mk_task ''T2'' ''pending'' 5 None 2,
                    mk_task ''T3'' ''pending'' 9 None 3],
           workers = [mk_worker ''w1'' ''busy'' (Some ''T1'') 0 0 10],
           notifications = []\<rparr>)"
    by (simp add: acquire_next_task_def numeral_3_eq_3 pending_queue_def ex_store_queue_def
        mk_task_def mk_worker_def Let_def)
  from acquire_next_task_correct [of ex_store_queue 10 "''w1''"]
       acquire_next_task_correct [of ex_store_done 10 "''w1''"] h k e
  show ?thesis by blast
qed

subsection \<open>Routing score\<close>

lemma select_best_worker_max:
  assumes "candidates \<noteq> []"
  shows "\<exists>w \<in> set candidates.
           select_best_worker candidates = Some (wi_worker_id w)
         \<and> (\<forall>v \<in> set candidates. calculate_worker_score v \<le> calculate_worker_score w)"
proof -
  let ?f = "\<lambda>w. (wi_worker_id w, calculate_worker_score w)"
  let ?k = "\<lambda>x::string \<times> rat. - snd x"
  let ?srt = "sort_key ?k (map ?f candidates)"
  have "length ?srt = length candidates"
    by simp
  with assms obtain x xs where srt: "?srt = x # xs"
    by (cases ?srt) auto
  have "x \<in> set ?srt"
    by (simp add: srt)
  then have "x \<in> set (map ?f candidates)"
    by simp
  then obtain w where w: "w \<in> set candidates" "x = ?f w"
    by auto
  have sorted: "sorted (map ?k ?srt)"
    by (rule sorted_sort_key)
  have best: "calculate_worker_score v \<le> calculate_worker_score w" if "v \<in> set candidates" for v
  proof -
    have "?f v \<in> set ?srt"
      using that by simp
    then have "?f v = x \<or> ?f v \<in> set xs"
      by (simp add: srt)
    then have "?k x \<le> ?k (?f v)"
      using sorted by (auto simp: srt)
    then show ?thesis
      by (simp add: w(2))
  qed
  have "select_best_worker candidates = Some (fst x)"
    using assms srt by (simp add: select_best_worker_def Let_def)
  then have "select_best_worker candidates = Some (wi_worker_id w)"
    by (simp add: w(2))
  with w(1) best show ?thesis
    by blast
qed

text \<open>
  C7. The score of a worker record is 100 times its performance factor (1 when the record
  has none), plus 50 when its status is idle, minus 30 when it is busy, plus 30 times its
  success rate, which is completed / (completed + failed) and 0 for a worker without
  history. Among the scored candidates the router picks one with maximum score.
\<close>

theorem calculate_worker_score_formula:
  "calculate_worker_score w
     = 100 * (case wi_performance_factor w of None \<Rightarrow> 1 | Some p \<Rightarrow> p)
       + (if wi_status w = ''idle'' then 50 else if wi_status w = ''busy'' then - 30 else 0)
       + 30 * (if wi_tasks_completed w + wi_tasks_failed w = 0 then 0
               else of_nat (wi_tasks_completed w)
                      / of_nat (wi_tasks_completed w + wi_tasks_failed w))
   \<and> (candidates \<noteq> [] \<longrightarrow>
        (\<exists>b \<in> set candidates.
            select_best_worker candidates = Some (wi_worker_id b)
          \<and> (\<forall>v \<in> set candidates. calculate_worker_score v \<le> calculate_worker_score b)))"
proof
  show "calculate_worker_score w
     = 100 * (case wi_performance_factor w of None \<Rightarrow> 1 | Some p \<Rightarrow> p)
       + (if wi_status w = ''idle'' then 50 else if wi_status w = ''busy'' then - 30 else 0)
       + 30 * (if wi_tasks_completed w + wi_tasks_failed w = 0 then 0
               else of_nat (wi_tasks_completed w)
                      / of_nat (wi_tasks_completed w + wi_tasks_failed w))"
    by (simp add: calculate_worker_score_def Let_def)
  show "candidates \<noteq> [] \<longrightarrow>
        (\<exists>b \<in> set candidates.
            select_best_worker candidates = Some (wi_worker_id b)
          \<and> (\<forall>v \<in> set candidates. calculate_worker_score v \<le> calculate_worker_score b))"
    using select_best_worker_max by blast
qed

theorem calculate_worker_score_formula_witness:
  "calculate_worker_score (mk_info ''w2'' ''busy'' ''remote'' (1 / 2) 3 1) = 85 / 2
   \<and> [mk_info ''w1'' ''idle'' ''local'' 1 0 0, mk_info ''w2'' ''busy'' ''remote'' (1 / 2) 3 1] \<noteq> []
   \<and> (\<exists>b \<in> set [mk_info ''w1'' ''idle'' ''local'' 1 0 0,
                   mk_info ''w2'' ''busy'' ''remote'' (1 / 2) 3 1].
         select_best_worker [mk_info ''w1'' ''idle'' ''local'' 1 0 0,
                             mk_info ''w2'' ''busy'' ''remote'' (1 / 2) 3 1]
           = Some (wi_worker_id b))
   \<and> select_best_worker [mk_info ''w1'' ''idle'' ''local'' 1 0 0,
                         mk_info ''w2'' ''busy'' ''remote'' (1 / 2) 3 1] = Some ''w1''"
proof -
  have ne: "[mk_info ''w1'' ''idle'' ''local'' 1 0 0,
             mk_info ''w2'' ''busy'' ''remote'' (1 / 2) 3 1] \<noteq> []"
    by simp
  have sc: "calculate_worker_score (mk_info ''w2'' ''busy'' ''remote'' (1 / 2) 3 1) = 85 / 2"
    using calculate_worker_score_formula
            [of "mk_info ''w2'' ''busy'' ''remote'' (1 / 2) 3 1" "[]"]
    by (simp add: mk_info_def)
  have sel: "select_best_worker [mk_info ''w1'' ''idle'' ''local'' 1 0 0,
                         mk_info ''w2'' ''busy'' ''remote'' (1 / 2) 3 1] = Some ''w1''"
    by (simp add: select_best_worker_def calculate_worker_score_def mk_info_def Let_def)
  from calculate_worker_score_formula
         [of "mk_info ''w2'' ''busy'' ''remote'' (1 / 2) 3 1"
             "[mk_info ''w1'' ''idle'' ''local'' 1 0 0,
               mk_info ''w2'' ''busy'' ''remote'' (1 / 2) 3 1]"] ne sc sel
  show ?thesis by blast
qed
subsection \<open>Routing\<close>

lemma select_best_worker_member:
  assumes "select_best_worker cs = Some x"
  shows "\<exists>w \<in> set cs. wi_worker_id w = x"
proof (cases "cs = []")
  case True
  with assms show ?thesis by (simp add: select_best_worker_def)
next
  case False
  from select_best_worker_max [OF False] assms show ?thesis by auto
qed

lemma try_worker_types_member:
  "try_worker_types av tys c = Inl sel \<Longrightarrow> \<exists>w \<in> set av. wi_worker_id w = sel"
proof (induction tys arbitrary: c)
  case Nil
  then show ?case by simp
next
  case (Cons ty tys)
  let ?cs = "filter (match_worker_type ty) av"
  show ?case
  proof (cases "?cs \<noteq> [] \<and> select_best_worker ?cs = Some sel \<and> sel \<noteq> []")
    case True
    then obtain w where "w \<in> set ?cs" "wi_worker_id w = sel"
      using select_best_worker_member by blast
    then show ?thesis by auto
  next
    case False
    then have "try_worker_types av tys (Some ?cs) = Inl sel"
      using Cons.prems by (auto simp: Let_def split: option.splits if_splits)
    then show ?thesis by (rule Cons.IH)
  qed
qed

lemma try_worker_types_bound:
  "try_worker_types av tys c = Inr c1 \<Longrightarrow> tys \<noteq> [] \<or> c \<noteq> None \<Longrightarrow> c1 \<noteq> None"
proof (induction tys arbitrary: c)
  case Nil
  then show ?case by simp
next
  case (Cons ty tys)
  let ?cs = "filter (match_worker_type ty) av"
  from Cons.prems(1) have "try_worker_types av tys (Some ?cs) = Inr c1"
    by (auto simp: Let_def split: option.splits if_splits)
  then show ?case by (rule Cons.IH) simp
qed

lemma apply_rules_member:
  "av \<noteq> [] \<Longrightarrow> apply_rules av prio rules c = Inr r \<Longrightarrow> \<exists>w \<in> set av. r = Some (wi_worker_id w)"
proof (induction rules arbitrary: c)
  case Nil
  then show ?case by (cases av) auto
next
  case (Cons rule rules)
  let ?range = "case priority_range rule of None \<Rightarrow> (1, 10) | Some r \<Rightarrow> r"
  let ?types = "case preferred_workers rule of None \<Rightarrow> [] | Some ts \<Rightarrow> ts"
  let ?locals = "filter (\<lambda>w. get_location w = ''local'') av"
  show ?case
  proof (cases "fst ?range \<le> prio \<and> prio \<le> snd ?range")
    case False
    then have "apply_rules av prio rules c = Inr r"
      using Cons.prems(2) by (auto simp: Let_def)
    then show ?thesis using Cons.IH Cons.prems(1) by blast
  next
    case True
    show ?thesis
    proof (cases "try_worker_types av ?types c")
      case (Inl sel)
      then have "r = Some sel"
        using True Cons.prems(2) by (auto simp: Let_def)
      moreover have "\<exists>w \<in> set av. wi_worker_id w = sel"
        using Inl by (rule try_worker_types_member)
      ultimately show ?thesis by auto
    next
      case (Inr c1)
      then consider
          (rec) "apply_rules av prio rules c1 = Inr r"
        | (loc) "?locals \<noteq> []" "select_best_worker ?locals = r"
        using True Cons.prems(2)
        by (auto simp: Let_def split: option.splits if_splits)
      then show ?thesis
      proof cases
        case rec
        then show ?thesis using Cons.IH Cons.prems(1) by blast
      next
        case loc
        from select_best_worker_max [OF loc(1)] loc(2) show ?thesis by auto
      qed
    qed
  qed
qed

lemma apply_rules_total:
  assumes "\<forall>rule \<in> set rules.
             (case fallback_to_local rule of None \<Rightarrow> False | Some b \<Rightarrow> b)
             \<longrightarrow> (case preferred_workers rule of None \<Rightarrow> [] | Some ts \<Rightarrow> ts) \<noteq> []"
  shows "\<exists>r. apply_rules av prio rules c = Inr r"
  using assms
proof (induction rules arbitrary: c)
  case Nil
  then show ?case by simp
next
  case (Cons rule rules)
  let ?range = "case priority_range rule of None \<Rightarrow> (1, 10) | Some r \<Rightarrow> r"
  let ?types = "case preferred_workers rule of None \<Rightarrow> [] | Some ts \<Rightarrow> ts"
  let ?fb = "case fallback_to_local rule of None \<Rightarrow> False | Some b \<Rightarrow> b"
  have ih: "\<exists>r. apply_rules av prio rules c' = Inr r" for c'
    using Cons.IH Cons.prems by simp
  show ?case
  proof (cases "fst ?range \<le> prio \<and> prio \<le> snd ?range")
    case False
    then show ?thesis using ih [of c] by (auto simp: Let_def)
  next
    case True
    show ?thesis
    proof (cases "try_worker_types av ?types c")
      case (Inl sel)
      then show ?thesis using True by (auto simp: Let_def)
    next
      case (Inr c1)
      show ?thesis
      proof (cases ?fb)
        case False
        then show ?thesis using True Inr ih [of c1] by (auto simp: Let_def)
      next
        case fb: True
        then have "?types \<noteq> []" using Cons.prems by simp
        then have "c1 \<noteq> None"
          using try_worker_types_bound [OF Inr] by blast
        then obtain cs where "c1 = Some cs" by auto
        then show ?thesis using True Inr fb ih [of c1] by (auto simp: Let_def)
      qed
    qed
  qed
qed

text \<open>The parts of the routing contract that hold on every input.\<close>

lemma route_task_empty: "route_task rules task [] = Inr None"
  by (simp add: route_task_def)

lemma route_task_preferred:
  assumes "preferred_worker task = Some p" and "p \<noteq> []"
    and "w \<in> set available_workers" and "wi_worker_id w = p"
  shows "route_task rules task available_workers = Inr (Some p)"
proof -
  have "filter (\<lambda>w. wi_worker_id w = p) available_workers \<noteq> []"
    using assms(3,4) by (auto simp: filter_empty_conv)
  moreover have "available_workers \<noteq> []"
    using assms(3) by auto
  ultimately show ?thesis
    using assms(1,2) by (simp add: route_task_def)
qed

lemma route_task_member:
  assumes "available_workers \<noteq> []" and "route_task rules task available_workers = Inr r"
  shows "\<exists>w \<in> set available_workers. r = Some (wi_worker_id w)"
proof -
  let ?prio = "case ti_priority task of None \<Rightarrow> 5 | Some p \<Rightarrow> p"
  let ?remote = "filter (\<lambda>w. get_location w \<noteq> ''local'') available_workers"
  let ?idle = "filter (\<lambda>w. wi_status w = ''idle'')
                 (filter (\<lambda>w. get_location w = ''local'') available_workers)"
  let ?pref = "case preferred_worker task of
                 None \<Rightarrow> None
               | Some p \<Rightarrow>
                   if p \<noteq> [] \<and> filter (\<lambda>w. wi_worker_id w = p) available_workers \<noteq> []
                   then Some p else None"
  let ?best = "if ?idle = [] \<and> ?remote \<noteq> [] then select_best_worker ?remote else None"
  show ?thesis
  proof (cases ?pref)
    case (Some p)
    then have "r = Some p"
      using assms by (simp add: route_task_def)
    moreover have "filter (\<lambda>w. wi_worker_id w = p) available_workers \<noteq> []"
      using Some by (auto split: option.splits if_splits)
    ultimately show ?thesis
      by (auto simp: filter_empty_conv)
  next
    case None
    show ?thesis
    proof (cases "\<exists>b. ?best = Some b \<and> b \<noteq> []")
      case True
      then obtain b where b: "?best = Some b" "b \<noteq> []"
        by blast
      then have "r = Some b"
        using assms None by (simp add: route_task_def Let_def)
      moreover have "select_best_worker ?remote = Some b"
        using b(1) by (simp split: if_splits)
      then have "\<exists>w \<in> set ?remote. wi_worker_id w = b"
        by (rule select_best_worker_member)
      ultimately show ?thesis
        by auto
    next
      case False
      then have "apply_rules available_workers ?prio rules None = Inr r"
        using assms None by (cases ?best) (simp_all add: route_task_def Let_def)
      with assms(1) show ?thesis
        by (rule apply_rules_member)
    qed
  qed
qed

lemma route_task_total:
  assumes "\<forall>rule \<in> set rules.
             (case fallback_to_local rule of None \<Rightarrow> False | Some b \<Rightarrow> b)
             \<longrightarrow> (case preferred_workers rule of None \<Rightarrow> [] | Some ts \<Rightarrow> ts) \<noteq> []"
  shows "\<exists>r. route_task rules task available_workers = Inr r"
  using apply_rules_total [OF assms]
  by (auto simp: route_task_def Let_def split: option.splits)

text \<open>
  C6. The routing contract says that for a non-empty worker list the router returns some
  worker of the list. With a rule that matches the task's priority, names no preferred
  worker class and enables the local fallback, \<open>route_task\<close> instead reads the variable
  \<open>candidates\<close> before any binding and raises UnboundLocalError, although an idle local
  worker is available.
\<close>

theorem route_task_unbound_candidates:
  "route_task [\<lparr>priority_range = Some (1, 10), preferred_workers = Some [],
                fallback_to_local = Some True\<rparr>]
              \<lparr>ti_task_id = ''t1'', ti_priority = Some 5, preferred_worker = None\<rparr>
              [mk_info ''w1'' ''idle'' ''local'' 1 0 0]
     = Inl UnboundLocalError"
  by (simp add: route_task_def mk_info_def get_location_def Let_def)

subsection \<open>Dispatch is not conditional on the task being pending\<close>

text \<open>
  C3. The dispatch step of the enhanced pool manager is meant to move a task to
  \<open>in_progress\<close> only if it is still pending. Here task \<open>T1\<close>, read as pending by the
  manager, has meanwhile been claimed by worker \<open>w1\<close>. The conditional transition of the
  store (\<open>DatabaseManager.assign_task_to_worker\<close>) refuses it and changes nothing; the
  manager's own \<open>assign_task_to_worker\<close> overwrites the assignment with \<open>w2\<close>, marks
  \<open>w2\<close> busy with \<open>T1\<close> and notifies it, so \<open>T1\<close> is assigned twice.
\<close>

theorem assign_task_to_worker_double_assignment:
  "db_assign_task_to_worker 100 ''T1'' ''w2'' ex_store_race = (False, ex_store_race)
   \<and> assign_task_to_worker []
        100 \<lparr>ti_task_id = ''T1'', ti_priority = Some 5, preferred_worker = None\<rparr> ex_store_race
     = Inr (Some ''w2'',
            \<lparr>tasks = [mk_task ''T1'' ''in_progress'' 5 (Some ''w2'') 1],
             workers = [mk_worker ''w1'' ''busy'' (Some ''T1'') 0 0 99,
                        mk_worker ''w2'' ''busy'' (Some ''T1'') 0 0 99],
             notifications =
               [\<lparr>n_worker_id = ''w2'', n_type = ''task_assigned'', n_task_id = ''T1'',
                 n_message = ''Task T1 assigned - process immediately'',
                 n_processed = False\<rparr>]\<rparr>)"
  by (simp add: db_assign_task_to_worker_def assign_task_to_worker_def ex_store_race_def
      get_available_workers_def worker_to_info_def route_task_def get_location_def
      notify_worker_task_assignment_def mk_task_def mk_worker_def Let_def)

subsection \<open>Empty prompts\<close>

lemma first_invalid_None:
  "first_invalid validate files = None \<longleftrightarrow> (\<forall>f \<in> set files. fst (validate f))"
  by (induction files) (auto split: prod.splits bool.splits)

text \<open>
  C8, as stated, fails at the submission interface: for the request
  \<open>{type: general, prompt: "", priority: 5, sync: true}\<close> the handler answers with HTTP
  status 400 and the error \<open>No prompt provided\<close>; it creates no task and returns no
  \<open>completed\<close> response with the result \<open>{success: false, error: "Prompt is empty"}\<close>.
\<close>

theorem delegate_task_empty_prompt_counterexample:
  "delegate_task ex_env (Inr (ex_request [])) ex_state
     = ((400, ErrorBody ''No prompt provided''), ex_state)
   \<and> fst (delegate_task ex_env (Inr (ex_request [])) ex_state)
     \<noteq> (200, Completed ''task_1''
               \<lparr>er_success = False, er_output = [], er_error = Some ''Prompt is empty''\<rparr>)"
  by (simp add: delegate_task_def ex_request_def request_is_empty_def request_prompt_def
      Let_def)

text \<open>
  C8, amended. A delegate request whose prompt is empty is refused with HTTP status 400
  and the error \<open>No prompt provided\<close>; no task is created and the Executor is not invoked
  (the state is unchanged). On the execution path, \<open>process_task\<close> on a task with an empty
  prompt returns \<open>success = false\<close> without invoking the Executor and without touching the
  store, and when the task's file paths all pass validation the result is
  \<open>{success: false, output: "", error: "Prompt is empty"}\<close>.
\<close>

theorem empty_prompt_rejected:
  "(\<not> request_is_empty data \<and> request_prompt data = []
      \<longrightarrow> delegate_task env (Inr data) st = ((400, ErrorBody ''No prompt provided''), st))
   \<and> (wt_prompt task = []
      \<longrightarrow> snd (process_task wenv task st) = st
        \<and> \<not> tr_success (fst (process_task wenv task st))
        \<and> ((\<forall>f \<in> set (wt_files task) \<union> set_option (wt_output_file task).
               fst (validate_file_operation wenv f))
            \<longrightarrow> fst (process_task wenv task st) = rejected ''Prompt is empty''))"
proof (intro conjI impI)
  assume "\<not> request_is_empty data \<and> request_prompt data = []"
  then show "delegate_task env (Inr data) st = ((400, ErrorBody ''No prompt provided''), st)"
    by (simp add: delegate_task_def Let_def)
next
  assume e: "wt_prompt task = []"
  show "snd (process_task wenv task st) = st"
    using e by (simp add: process_task_def split: option.splits)
  show "\<not> tr_success (fst (process_task wenv task st))"
    using e by (simp add: process_task_def rejected_def split: option.splits)
next
  assume e: "wt_prompt task = []"
    and v: "\<forall>f \<in> set (wt_files task) \<union> set_option (wt_output_file task).
               fst (validate_file_operation wenv f)"
  have a: "first_invalid (validate_file_operation wenv) (wt_files task) = None"
    using v by (simp add: first_invalid_None)
  have b: "first_invalid (validate_file_operation wenv) [f] = None"
    if "wt_output_file task = Some f" for f
    using v that by (simp add: first_invalid_None del: first_invalid.simps)
  show "fst (process_task wenv task st) = rejected ''Prompt is empty''"
    using e a b by (simp add: process_task_def split: option.splits)
qed

theorem empty_prompt_rejected_witness:
  "\<not> request_is_empty (ex_request []) \<and> request_prompt (ex_request []) = []
   \<and> delegate_task ex_env (Inr (ex_request [])) ex_state
       = ((400, ErrorBody ''No prompt provided''), ex_state)
   \<and> wt_prompt \<lparr>wt_task_id = ''t1'', wt_type = ''general'', wt_prompt = [],
                 wt_files = [''a.py''], wt_output_file = None\<rparr> = []
   \<and> fst (validate_file_operation ex_worker_env ''a.py'')
   \<and> process_task ex_worker_env
        \<lparr>wt_task_id = ''t1'', wt_type = ''general'', wt_prompt = [],
         wt_files = [''a.py''], wt_output_file = None\<rparr> ex_state
       = (rejected ''Prompt is empty'', ex_state)"
proof -
  let ?task = "\<lparr>wt_task_id = ''t1'', wt_type = ''general'', wt_prompt = [],
                 wt_files = [''a.py''], wt_output_file = None\<rparr>"
  have h1: "\<not> request_is_empty (ex_request []) \<and> request_prompt (ex_request []) = []"
    by (simp add: ex_request_def request_is_empty_def request_prompt_def)
  have h2: "wt_prompt ?task = []"
    by simp
  have h3: "\<forall>f \<in> set (wt_files ?task) \<union> set_option (wt_output_file ?task).
              fst (validate_file_operation ex_worker_env f)"
    by (simp add: ex_worker_env_def)
  from empty_prompt_rejected [of "ex_request []" ex_env ex_state ?task ex_worker_env]
       h1 h2 h3
  have "delegate_task ex_env (Inr (ex_request [])) ex_state
          = ((400, ErrorBody ''No prompt provided''), ex_state)
        \<and> snd (process_task ex_worker_env ?task ex_state) = ex_state
        \<and> fst (process_task ex_worker_env ?task ex_state) = rejected ''Prompt is empty''"
    by blast
  then show ?thesis
    using h1 h3 by (simp add: prod_eq_iff)
qed

subsection \<open>Deliverable extraction\<close>





























end
